theory Spec2Isabelle
  imports Complex_Main "HOL-Library.Word"
begin

unbundle bit_operations_syntax

section \<open>Audio utilities (services/audioUtils)\<close>

text \<open>
  The views import \<open>decode\<close>, \<open>decodeAudioData\<close>, \<open>playAudioBuffer\<close> and
  \<open>blobToBase64\<close> from \<open>../services/audioUtils\<close>.  The source of that module is
  missing from the repository's files, so the codec and the PCM decoder follow the
  specification (sections 3, 4.1 and 4.2) instead.
\<close>

type_synonym byte = "8 word"

datatype error =
    FormatError
  | DecodeError
  | DeviceError
  | InvalidStateError
  | TypeError
  | SyntaxError
  | RemoteError string
  | Error string

subsection \<open>Base64 binary codec\<close>

definition b64_alphabet :: string where
  "b64_alphabet = ''ABCDEFGHIJKLMNOPQRSTUVWXYZabcdefghijklmnopqrstuvwxyz0123456789+/''"

definition b64_pad :: char where
  "b64_pad = CHR ''=''"

definition b64_char :: "nat \<Rightarrow> char" where
  "b64_char n = b64_alphabet ! (n mod 64)"

fun index_of :: "'a list \<Rightarrow> 'a \<Rightarrow> nat option" where
  "index_of [] y = None"
| "index_of (x # xs) y = (if x = y then Some 0 else map_option Suc (index_of xs y))"

definition b64_value :: "char \<Rightarrow> nat option" where
  "b64_value c = index_of b64_alphabet c"

text \<open>
  Modelled from the spec: \<open>encode\<close> of services/audioUtils (section 4.1, "a standard
  reversible binary-to-text coding", "representing 3 bytes as 4 printable characters",
  total on every byte sequence).  Three bytes \<open>a b c\<close> give the four sextets below; a
  final group of one or two bytes is padded with \<open>=\<close>.
\<close>

fun encode :: "byte list \<Rightarrow> string" where
  "encode [] = []"
| "encode [a] =
     [b64_char (unat a div 4), b64_char ((unat a mod 4) * 16), b64_pad, b64_pad]"
| "encode [a, b] =
     [b64_char (unat a div 4),
      b64_char ((unat a mod 4) * 16 + unat b div 16),
      b64_char ((unat b mod 16) * 4),
      b64_pad]"
| "encode (a # b # c # rest) =
     [b64_char (unat a div 4),
      b64_char ((unat a mod 4) * 16 + unat b div 16),
      b64_char ((unat b mod 16) * 4 + unat c div 64),
      b64_char (unat c mod 64)] @ encode rest"

text \<open>
  Modelled from the spec: \<open>decode\<close> of services/audioUtils (section 4.1: "input is a
  standard base64 string; output is the exact corresponding byte sequence.  Fails with
  FormatError on invalid alphabet or padding").  The text is read in groups of four
  characters; padding is accepted only in the last one or two places of the final group.
\<close>

definition decode_pair :: "char \<Rightarrow> char \<Rightarrow> byte list option" where
  "decode_pair c0 c1 =
     (case (b64_value c0, b64_value c1) of
        (Some v0, Some v1) \<Rightarrow> Some [of_nat (v0 * 4 + v1 div 16)]
      | _ \<Rightarrow> None)"

definition decode_triple :: "char \<Rightarrow> char \<Rightarrow> char \<Rightarrow> byte list option" where
  "decode_triple c0 c1 c2 =
     (case (b64_value c0, b64_value c1, b64_value c2) of
        (Some v0, Some v1, Some v2) \<Rightarrow>
          Some [of_nat (v0 * 4 + v1 div 16), of_nat ((v1 mod 16) * 16 + v2 div 4)]
      | _ \<Rightarrow> None)"

definition decode_quad :: "char \<Rightarrow> char \<Rightarrow> char \<Rightarrow> char \<Rightarrow> byte list option" where
  "decode_quad c0 c1 c2 c3 =
     (case (b64_value c0, b64_value c1, b64_value c2, b64_value c3) of
        (Some v0, Some v1, Some v2, Some v3) \<Rightarrow>
          Some [of_nat (v0 * 4 + v1 div 16),
                of_nat ((v1 mod 16) * 16 + v2 div 4),
                of_nat ((v2 mod 4) * 64 + v3)]
      | _ \<Rightarrow> None)"

definition decode_last :: "char \<Rightarrow> char \<Rightarrow> char \<Rightarrow> char \<Rightarrow> byte list option" where
  "decode_last c0 c1 c2 c3 =
     (if c2 = b64_pad \<and> c3 = b64_pad then decode_pair c0 c1
      else if c3 = b64_pad then decode_triple c0 c1 c2
      else decode_quad c0 c1 c2 c3)"

fun decode :: "string \<Rightarrow> error + byte list" where
  "decode [] = Inr []"
| "decode (c0 # c1 # c2 # c3 # rest) =
     (if rest = [] then
        (case decode_last c0 c1 c2 c3 of None \<Rightarrow> Inl FormatError | Some bs \<Rightarrow> Inr bs)
      else
        (case decode_quad c0 c1 c2 c3 of
           None \<Rightarrow> Inl FormatError
         | Some bs \<Rightarrow>
            (case decode rest of Inl e \<Rightarrow> Inl e | Inr more \<Rightarrow> Inr (bs @ more))))"
| "decode _ = Inl FormatError"

subsection \<open>PCM frame decoder\<close>

type_synonym int16 = "16 word"

text \<open>
  Modelled from the spec: the little-endian int16 stream of section 4.2 (the decoder of
  services/audioUtils).  One sample is two bytes, low byte first, read as a
  two's-complement 16-bit integer; a last byte without partner is no sample.
\<close>

definition le_int16 :: "byte \<Rightarrow> byte \<Rightarrow> int16" where
  "le_int16 lo hi = of_nat (unat lo + 256 * unat hi)"

fun int16_stream :: "byte list \<Rightarrow> int16 list" where
  "int16_stream (lo # hi # rest) = le_int16 lo hi # int16_stream rest"
| "int16_stream _ = []"

text \<open>
  Modelled from the spec: the PCMSample of section 3, the int16 value divided by
  32768.  Every such quotient is a dyadic
  rational with at most 16 significant bits, so it is exactly representable as a
  floating-point sample; the model keeps it as an exact real number.
\<close>

definition pcm_sample :: "int16 \<Rightarrow> real" where
  "pcm_sample v = real_of_int (sint v) / 32768"

record SampleBuffer =
  samples :: "real list"
  channelCount :: int
  sampleRate :: int

text \<open>
  Modelled from the spec: the channel splitting of section 4.2.  Channel \<open>c\<close> of an
  interleaved buffer holds the samples at positions
  \<open>c, c + channelCount, c + 2 * channelCount, ...\<close>
\<close>

definition channelData :: "SampleBuffer \<Rightarrow> nat \<Rightarrow> real list" where
  "channelData buf c =
     map (\<lambda>i. samples buf ! i)
       (filter (\<lambda>i. int (i mod nat (channelCount buf)) = int c \<and> int c < channelCount buf)
          [0 ..< length (samples buf)])"

text \<open>
  Modelled from the spec: \<open>decodeAudioData\<close> of services/audioUtils (section 4.2:
  "Interprets bytes as a flat little-endian int16 stream; sample count =
  floor(len(bytes)/2)", "Each int16 value v maps to float sample v / 32768.0", "Fails
  with DecodeError if channelCount < 1 or bytes is empty").  The spec's signature
  \<open>decodeAudioData(bytes, sampleRate, channelCount)\<close> is kept; the views pass the
  platform's audio context as a further argument, which carries no data of the result.
\<close>

definition decodeAudioData :: "byte list \<Rightarrow> int \<Rightarrow> int \<Rightarrow> error + SampleBuffer" where
  "decodeAudioData bytes rate numChannels =
     (if numChannels < 1 \<or> bytes = [] then Inl DecodeError
      else Inr \<lparr>samples = map pcm_sample (int16_stream bytes),
                channelCount = numChannels,
                sampleRate = rate\<rparr>)"

section \<open>Remote generation client (services/geminiService.ts)\<close>

text \<open>
  The generative API is an external collaborator.  A call
  \<open>ai.models.generateContent(request)\<close> either rejects or fulfils with a response, so
  the service functions take the API as a function from requests to outcomes.  Beside
  what it returns, each function reports the requests it issued, in order, and the lines
  it wrote to the console.  A request is kept as its model name and content parts; the
  \<open>config\<close> objects are constants of the source and carry no input.
\<close>

datatype RequestPart = TextPart string | InlineDataPart string string

datatype Request = Request (model: string) (contents: "RequestPart list")

datatype InlineData = InlineData (inline_data: "string option")

datatype Part = Part (inlineData: "InlineData option")

datatype Content = Content (parts: "Part list option")

datatype Candidate = Candidate (content: "Content option")

datatype Response =
  Response (response_text: "string option") (candidates: "Candidate list option")

type_synonym Api = "Request \<Rightarrow> error + Response"

record 'a Run =
  returned :: "error + 'a"
  requests :: "Request list"
  console :: "string list"

subsection \<open>JavaScript values that may be undefined\<close>

text \<open>
  \<open>None\<close> stands for \<open>undefined\<close>.  A string is truthy when it is present and not
  empty; \<open>a || b\<close> is \<open>a\<close> when \<open>a\<close> is truthy and \<open>b\<close> otherwise; a template
  literal prints \<open>undefined\<close> for a missing value; \<open>xs?.[0]\<close> is the first element or
  \<open>undefined\<close>.
\<close>

definition truthy :: "string option \<Rightarrow> bool" where
  "truthy t = (case t of None \<Rightarrow> False | Some s \<Rightarrow> s \<noteq> [])"

definition or_else :: "string option \<Rightarrow> string \<Rightarrow> string" where
  "or_else t d = (case t of None \<Rightarrow> d | Some s \<Rightarrow> if s = [] then d else s)"

definition interpolate :: "string option \<Rightarrow> string" where
  "interpolate t = (case t of None \<Rightarrow> ''undefined'' | Some s \<Rightarrow> s)"

definition first_elem :: "'a list \<Rightarrow> 'a option" where
  "first_elem xs = (case xs of [] \<Rightarrow> None | x # _ \<Rightarrow> Some x)"

text \<open>
  \<open>Promise.all\<close> of two promises: fulfilled with both values when both fulfil, and
  rejected as soon as one rejects, with that promise's reason.  When both reject, the
  reason is that of the one that settled first; \<open>secondFirst\<close> tells which.
\<close>

definition promise_all2 :: "bool \<Rightarrow> error + 'a \<Rightarrow> error + 'b \<Rightarrow> error + ('a \<times> 'b)" where
  "promise_all2 secondFirst p q =
     (case p of
        Inr a \<Rightarrow> (case q of Inr b \<Rightarrow> Inr (a, b) | Inl e \<Rightarrow> Inl e)
      | Inl e1 \<Rightarrow> (case q of Inr b \<Rightarrow> Inl e1 | Inl e2 \<Rightarrow> Inl (if secondFirst then e2 else e1)))"

subsection \<open>generateVisualVocab\<close>

record VocabCard =
  card_word :: string
  card_definition :: string
  card_example :: "string option"
  card_imageUrl :: string

text \<open>
  What \<open>JSON.parse\<close> gives for the definition response, read at the four properties the
  code uses.  The response schema declares each of them a string and none of them
  required, so each is a string or missing.
\<close>

record TextData =
  td_word :: "string option"
  td_definition :: "string option"
  td_example :: "string option"
  td_translation :: "string option"

definition definitionRequest :: "string \<Rightarrow> Request" where
  "definitionRequest word =
     Request ''gemini-2.5-flash''
       [TextPart (''Define the English word '' @ [CHR 0x22] @ word @ [CHR 0x22]
          @ '' for a French student. Provide a definition in simple English, a translation in French, and an example sentence.'')]"

definition imageRequest :: "string \<Rightarrow> Request" where
  "imageRequest word =
     Request ''gemini-2.5-flash-image''
       [TextPart (''A clear, iconic, cartoon-style illustration of a '' @ word
          @ '', white background, educational style.'')]"

fun firstInlineImage :: "Part list \<Rightarrow> string" where
  "firstInlineImage [] = []"
| "firstInlineImage (p # ps) =
     (case inlineData p of
        Some d \<Rightarrow> ''data:image/png;base64,'' @ interpolate (inline_data d)
      | None \<Rightarrow> firstInlineImage ps)"

text \<open>
  The image extraction.  \<open>imgResponse.candidates[0].content.parts\<close> is read without
  optional chaining: an empty candidate list or a candidate without content raises a
  TypeError.
\<close>

definition extractImage :: "Response \<Rightarrow> error + string" where
  "extractImage imgResponse =
     (case candidates imgResponse of
        None \<Rightarrow> Inr []
      | Some [] \<Rightarrow> Inl TypeError
      | Some (c # _) \<Rightarrow>
          (case content c of
             None \<Rightarrow> Inl TypeError
           | Some ct \<Rightarrow>
               (case parts ct of
                  None \<Rightarrow> Inr []
                | Some ps \<Rightarrow> Inr (firstInlineImage ps))))"

definition generateVisualVocab ::
  "(string \<Rightarrow> error + TextData) \<Rightarrow> bool \<Rightarrow> Api \<Rightarrow> string \<Rightarrow> VocabCard Run" where
  "generateVisualVocab JSON_parse imageSettlesFirst api word =
     (let defPromise = api (definitionRequest word);
          imagePromise = api (imageRequest word)
      in \<lparr>returned =
            (case promise_all2 imageSettlesFirst defPromise imagePromise of
               Inl e \<Rightarrow> Inl e
             | Inr (defResponse, imgResponse) \<Rightarrow>
                 (case extractImage imgResponse of
                    Inl e \<Rightarrow> Inl e
                  | Inr imageUrl \<Rightarrow>
                      (case JSON_parse (or_else (response_text defResponse) ''{}'') of
                         Inl e \<Rightarrow> Inl e
                       | Inr textData \<Rightarrow>
                           Inr \<lparr>card_word = or_else (td_word textData) word,
                                card_definition =
                                  interpolate (td_definition textData)
                                  @ [CHR '' '', CHR 0x0A, CHR 0x0A] @ ''(Traduction: ''
                                  @ interpolate (td_translation textData) @ '')'',
                                card_example = td_example textData,
                                card_imageUrl = imageUrl\<rparr>))),
          requests = [definitionRequest word, imageRequest word],
          console = []\<rparr>)"

subsection \<open>checkPronunciation\<close>

text \<open>
  What \<open>JSON.parse\<close> gives for the scoring response, read at its two properties.  The
  response schema declares \<open>score\<close> a number and \<open>feedback\<close> a string, marks neither as
  required and gives no range; the range 0 to 10 is asked for in the prompt only.
\<close>

record PronunciationResult =
  score :: "real option"
  feedback :: "string option"

definition pronunciationPrompt :: "string \<Rightarrow> string" where
  "pronunciationPrompt targetWord =
     ''The user is a French speaker trying to pronounce the English word ''
     @ [CHR 0x22] @ targetWord @ [CHR 0x22] @ ''. '' @ [CHR 0x0A]
     @ ''          Listen to the audio.'' @ [CHR 0x0A]
     @ ''          1. Rate the pronunciation from 0 to 10.'' @ [CHR 0x0A]
     @ ''          2. Give specific, helpful feedback in FRENCH. Explain which phonemes were wrong if any.'' @ [CHR 0x0A]
     @ ''          3. Keep it short and encouraging.''"

definition pronunciationRequest :: "string \<Rightarrow> string \<Rightarrow> Request" where
  "pronunciationRequest targetWord audioBase64 =
     Request ''gemini-2.5-flash''
       [InlineDataPart ''audio/mp3'' audioBase64, TextPart (pronunciationPrompt targetWord)]"

definition checkPronunciation ::
  "(string \<Rightarrow> error + PronunciationResult) \<Rightarrow> Api \<Rightarrow> string \<Rightarrow> string
     \<Rightarrow> PronunciationResult Run" where
  "checkPronunciation JSON_parse api targetWord audioBase64 =
     \<lparr>returned =
        (case api (pronunciationRequest targetWord audioBase64) of
           Inl e \<Rightarrow> Inl e
         | Inr response \<Rightarrow>
             (case response_text response of
                None \<Rightarrow> Inl (Error ''Analysis failed'')
              | Some t \<Rightarrow> if t = [] then Inl (Error ''Analysis failed'') else JSON_parse t)),
      requests = [pronunciationRequest targetWord audioBase64],
      console = []\<rparr>"

subsection \<open>generateSpeech\<close>

definition speechRequest :: "string \<Rightarrow> Request" where
  "speechRequest txt = Request ''gemini-2.5-flash-preview-tts'' [TextPart txt]"

text \<open>
  \<open>response.candidates?.[0]?.content?.parts?.[0]?.inlineData?.data\<close>: every step of
  the chain yields \<open>undefined\<close> instead of raising.
\<close>

definition speechData :: "Response \<Rightarrow> string option" where
  "speechData response =
     Option.bind (candidates response) (\<lambda>cs.
     Option.bind (first_elem cs) (\<lambda>c.
     Option.bind (content c) (\<lambda>ct.
     Option.bind (parts ct) (\<lambda>ps.
     Option.bind (first_elem ps) (\<lambda>p.
     Option.bind (inlineData p) inline_data)))))"

definition generateSpeech :: "Api \<Rightarrow> string \<Rightarrow> (string option) Run" where
  "generateSpeech api txt =
     (case api (speechRequest txt) of
        Inr response \<Rightarrow>
          \<lparr>returned = Inr (if truthy (speechData response) then speechData response else None),
           requests = [speechRequest txt],
           console = []\<rparr>
      | Inl e \<Rightarrow>
          \<lparr>returned = Inr None,
           requests = [speechRequest txt],
           console = [''TTS Error'']\<rparr>)"

section \<open>Recording capturer of the views\<close>

text \<open>
  The platform's \<open>MediaRecorder\<close>, as far as the views use it: its recording state,
  whether the track of its input stream is still live, and how many \<open>stop\<close> events the
  platform has queued for it.  \<open>start()\<close> makes it recording; \<open>stop()\<close> on an
  inactive recorder raises InvalidStateError, and otherwise makes it inactive and
  queues one \<open>stop\<close> event, on which the \<open>onstop\<close> handler runs.
\<close>

datatype RecordingState = Inactive | Recording

record MediaRecorder =
  state :: RecordingState
  trackLive :: bool
  stopEvents :: nat

definition newMediaRecorder :: MediaRecorder where
  "newMediaRecorder = \<lparr>state = Inactive, trackLive = True, stopEvents = 0\<rparr>"

definition MediaRecorder_start :: "MediaRecorder \<Rightarrow> MediaRecorder" where
  "MediaRecorder_start r = r\<lparr>state := Recording\<rparr>"

definition MediaRecorder_stop :: "MediaRecorder \<Rightarrow> error + MediaRecorder" where
  "MediaRecorder_stop r =
     (if state r = Inactive then Inl InvalidStateError
      else Inr (r\<lparr>state := Inactive, stopEvents := stopEvents r + 1\<rparr>))"

definition stopTracks :: "MediaRecorder \<Rightarrow> MediaRecorder" where
  "stopTracks r = r\<lparr>trackLive := False\<rparr>"

text \<open>
  The part of a view's state that drives the microphone.  \<open>mediaRecorderRef\<close> and
  \<open>chunksRef\<close> are the two refs and \<open>isRecording\<close> the flag of the source.  A recorder
  that \<open>mediaRecorderRef\<close> no longer points to still exists in the platform; such
  recorders are kept in \<open>detached\<close>.  All recorders of a view push into the one
  \<open>chunksRef\<close>.  \<open>logged\<close> and \<open>alerts\<close> are what the view has written with
  \<open>console.error\<close> and shown with \<open>alert\<close>.
\<close>

record Capturer =
  isRecording :: bool
  mediaRecorderRef :: "MediaRecorder option"
  chunksRef :: "byte list list"
  detached :: "MediaRecorder list"
  logged :: "string list"
  alerts :: "string list"

definition allRecorders :: "'a Capturer_scheme \<Rightarrow> MediaRecorder list" where
  "allRecorders s =
     (case mediaRecorderRef s of None \<Rightarrow> [] | Some r \<Rightarrow> [r]) @ detached s"

definition activeSessions :: "'a Capturer_scheme \<Rightarrow> nat" where
  "activeSessions s = length (filter (\<lambda>r. state r = Recording) (allRecorders s))"

definition queuedStopEvents :: "'a Capturer_scheme \<Rightarrow> nat" where
  "queuedStopEvents s = sum_list (map stopEvents (allRecorders s))"

text \<open>
  \<open>ondataavailable\<close>, the same in both views: a chunk is pushed when it is not empty.
\<close>

definition ondataavailable :: "byte list \<Rightarrow> 'a Capturer_scheme \<Rightarrow> 'a Capturer_scheme" where
  "ondataavailable chunk s =
     (if length chunk > 0 then s\<lparr>chunksRef := chunksRef s @ [chunk]\<rparr> else s)"

subsection \<open>VisualDictView (components/VisualDictView.tsx)\<close>

record VisualDictState = Capturer +
  card :: "VocabCard option"
  pronunciationResult :: "PronunciationResult option"
  isAnalyzing :: bool
  audioBlobs :: "byte list list"
  issued :: "Request list"

text \<open>
  The component as first rendered: no card, not recording, both refs at their initial
  values.  \<open>audioBlobs\<close> lists the blobs the \<open>onstop\<close> handler has built, \<open>issued\<close>
  the remote requests sent so far.
\<close>

definition initialVisualDict :: VisualDictState where
  "initialVisualDict =
     \<lparr>isRecording = False, mediaRecorderRef = None, chunksRef = [], detached = [],
      logged = [], alerts = [],
      card = None, pronunciationResult = None, isAnalyzing = False,
      audioBlobs = [], issued = []\<rparr>"

text \<open>
  \<open>startRecording\<close>, on the state in which \<open>getUserMedia\<close> settles (nothing is
  written before that \<open>await\<close>); \<open>mic\<close> is the outcome of \<open>getUserMedia\<close>.  The body
  is one \<open>try\<close> whose \<open>catch\<close> logs and returns, so the call never rejects.  There
  is no test of \<open>isRecording\<close> or of the old recorder: the ref is overwritten.
\<close>

definition startRecording :: "error + unit \<Rightarrow> VisualDictState \<Rightarrow> VisualDictState" where
  "startRecording mic s =
     (case mic of
        Inl e \<Rightarrow> s\<lparr>logged := logged s @ [''Mic error'']\<rparr>
      | Inr stream \<Rightarrow>
          s\<lparr>mediaRecorderRef := Some (MediaRecorder_start newMediaRecorder),
            detached := (case mediaRecorderRef s of None \<Rightarrow> [] | Some old \<Rightarrow> [old]) @ detached s,
            chunksRef := [],
            isRecording := True,
            pronunciationResult := None\<rparr>)"

definition stopRecording :: "VisualDictState \<Rightarrow> error + VisualDictState" where
  "stopRecording s =
     (case mediaRecorderRef s of
        None \<Rightarrow> Inr s
      | Some r \<Rightarrow>
          if isRecording s then
            (case MediaRecorder_stop r of
               Inl e \<Rightarrow> Inl e
             | Inr r' \<Rightarrow>
                 Inr (s\<lparr>mediaRecorderRef := Some (stopTracks r'), isRecording := False\<rparr>))
          else Inr s)"

text \<open>
  The \<open>onstop\<close> handler: the chunks are flattened into one blob, the blob is encoded
  (\<open>blobToBase64\<close> of services/audioUtils, modelled by \<open>encode\<close>) and, when a card is
  shown, scored.  A failure of the scoring is caught and reported by an alert.  The
  handler is a closure made inside \<open>startRecording\<close>: \<open>card\<close> is the card of
  \<open>render\<close>, the state of the render whose \<open>startRecording\<close> was called, while
  \<open>chunksRef\<close> is a ref and is read from \<open>s\<close>, the state in which the \<open>stop\<close> event
  is handled and to which the setters apply.
\<close>

definition onstop ::
  "(string \<Rightarrow> error + PronunciationResult) \<Rightarrow> Api \<Rightarrow> VisualDictState \<Rightarrow> VisualDictState
     \<Rightarrow> VisualDictState" where
  "onstop JSON_parse api render s =
     (let blob = concat (chunksRef s);
          base64 = encode blob;
          s1 = s\<lparr>audioBlobs := audioBlobs s @ [blob]\<rparr>
      in case card render of
           None \<Rightarrow> s1\<lparr>isAnalyzing := False\<rparr>
         | Some c \<Rightarrow>
             (let run = checkPronunciation JSON_parse api (card_word c) base64;
                  s2 = s1\<lparr>issued := issued s1 @ requests run\<rparr>
              in case returned run of
                   Inr result \<Rightarrow> s2\<lparr>pronunciationResult := Some result, isAnalyzing := False\<rparr>
                 | Inl e \<Rightarrow>
                     s2\<lparr>logged := logged s2 @ [''Analysis error''],
                        alerts := alerts s2 @ [''Erreur lors de l'' @ [CHR 0x27] @ ''analyse.''],
                        isAnalyzing := False\<rparr>))"

subsection \<open>ChatView (components/ChatView.tsx)\<close>

text \<open>
  The chat view is the second component of the file \<open>types.ts\<close> (lines 60 to 533);
  its recording functions are at lines 192 to 245 and \<open>handleSend\<close> at lines 255 to
  311.
\<close>

datatype AttachmentType = Image | Audio

record Attachment =
  att_type :: AttachmentType
  url :: string
  att_data :: "string option"
  mimeType :: "string option"

datatype Role = User | Model

record Message =
  msg_id :: string
  role :: Role
  msg_text :: string
  audioData :: "string option"
  isLoadingAudio :: "bool option"
  msg_attachment :: "Attachment option"

text \<open>
  \<open>chat\<close> tells whether the chat session exists (\<open>chat !== null\<close>); \<open>sent\<close> lists
  the part lists passed to \<open>chat.sendMessage\<close>; \<open>intervals\<close> holds the ids of the
  running interval timers.
\<close>

record ChatState = Capturer +
  chat :: bool
  messages :: "Message list"
  input :: string
  attachment :: "Attachment option"
  isLoading :: bool
  recordingDuration :: nat
  timerRef :: "nat option"
  intervals :: "nat list"
  sent :: "RequestPart list list"

text \<open>
  \<open>Date.now().toString()\<close>: the decimal digits of a count of milliseconds.
\<close>

fun decimal :: "nat \<Rightarrow> string" where
  "decimal n =
     (if n < 10 then [char_of (48 + n)]
      else decimal (n div 10) @ [char_of (48 + n mod 10)])"

declare decimal.simps [simp del]

definition userMessage :: "nat \<Rightarrow> string \<Rightarrow> Attachment option \<Rightarrow> Message" where
  "userMessage now txt att =
     \<lparr>msg_id = decimal now, role = User, msg_text = txt, audioData = None,
      isLoadingAudio = None, msg_attachment = att\<rparr>"

definition modelMessage :: "nat \<Rightarrow> string \<Rightarrow> Message" where
  "modelMessage stamp txt =
     \<lparr>msg_id = decimal stamp, role = Model, msg_text = txt, audioData = None,
      isLoadingAudio = None, msg_attachment = None\<rparr>"

text \<open>
  The parts passed to \<open>chat.sendMessage\<close>.  \<open>trim\<close> is the platform's
  \<open>String.prototype.trim\<close>; \<open>textToSend.trim()\<close> is truthy when it is not empty.
\<close>

definition messageParts ::
  "(string \<Rightarrow> string) \<Rightarrow> string \<Rightarrow> Attachment option \<Rightarrow> RequestPart list" where
  "messageParts trim textToSend attachmentToSend =
     (if trim textToSend = [] then [] else [TextPart textToSend])
     @ (case attachmentToSend of
          None \<Rightarrow> []
        | Some a \<Rightarrow>
            (case att_data a of
               None \<Rightarrow> []
             | Some d \<Rightarrow>
                 if d = [] then []
                 else [InlineDataPart (or_else (mimeType a) ''image/jpeg'') d]))"

text \<open>
  \<open>handleSend\<close>.  The function is a closure of one render of the component:
  \<open>input\<close>, \<open>attachment\<close> and \<open>chat\<close> are those of \<open>render\<close>, the state of that
  render, whereas the setters, \<open>setMessages\<close> with its functional update included,
  apply to \<open>s\<close>, the state in which the call runs.  A call from the send button has
  \<open>render = s\<close>.  \<open>now1\<close> is the clock when the user message is built, \<open>reply\<close>
  the outcome of \<open>chat.sendMessage\<close> (the text of the result, when it fulfils) and
  \<open>now2\<close> the clock when that outcome is handled.
\<close>

definition handleSend ::
  "(string \<Rightarrow> string) \<Rightarrow> nat \<Rightarrow> error + string option \<Rightarrow> nat \<Rightarrow> string option
     \<Rightarrow> Attachment option \<Rightarrow> ChatState \<Rightarrow> ChatState \<Rightarrow> ChatState" where
  "handleSend trim now1 reply now2 overrideText overrideAttachment render s =
     (let textToSend = (case overrideText of Some t \<Rightarrow> t | None \<Rightarrow> input render);
          attachmentToSend =
            (case overrideAttachment of Some a \<Rightarrow> Some a | None \<Rightarrow> attachment render)
      in if (trim textToSend = [] \<and> attachmentToSend = None) \<or> \<not> chat render then s
         else
           (let s1 = s\<lparr>input := [], attachment := None,
                       messages := messages s @ [userMessage now1 textToSend attachmentToSend],
                       sent := sent s @ [messageParts trim textToSend attachmentToSend]\<rparr>
            in case reply of
                 Inr resultText \<Rightarrow>
                   s1\<lparr>messages := messages s1
                        @ [modelMessage (now2 + 1)
                             (or_else resultText
                                (''I understood, but I don'' @ [CHR 0x27]
                                 @ ''t have a text response.''))],
                      isLoading := False\<rparr>
               | Inl e \<Rightarrow>
                   s1\<lparr>messages := messages s1
                        @ [modelMessage now2
                             ''Sorry, I encountered an error processing your message.''],
                      logged := logged s1 @ [''Chat error''],
                      isLoading := False\<rparr>))"

text \<open>
  \<open>startRecording\<close> of the chat view, on the state in which \<open>getUserMedia\<close> settles;
  \<open>timerId\<close> is the id \<open>setInterval\<close> returns.
\<close>

definition chat_startRecording :: "error + unit \<Rightarrow> nat \<Rightarrow> ChatState \<Rightarrow> ChatState" where
  "chat_startRecording mic timerId s =
     (case mic of
        Inl e \<Rightarrow>
          s\<lparr>logged := logged s @ [''Error accessing microphone''],
            alerts := alerts s @ [''Could not access microphone.'']\<rparr>
      | Inr stream \<Rightarrow>
          s\<lparr>mediaRecorderRef := Some (MediaRecorder_start newMediaRecorder),
            detached := (case mediaRecorderRef s of None \<Rightarrow> [] | Some old \<Rightarrow> [old]) @ detached s,
            chunksRef := [],
            isRecording := True,
            recordingDuration := 0,
            timerRef := Some timerId,
            intervals := intervals s @ [timerId]\<rparr>)"

text \<open>
  \<open>stopRecording(shouldSend)\<close> of the chat view.  Both branches of the test of
  \<open>shouldSend\<close> are kept as the source has them.
\<close>

definition clearTimer :: "ChatState \<Rightarrow> ChatState" where
  "clearTimer s =
     (case timerRef s of
        None \<Rightarrow> s
      | Some t \<Rightarrow>
          if t = 0 then s
          else s\<lparr>intervals := filter (\<lambda>i. i \<noteq> t) (intervals s), timerRef := None\<rparr>)"

definition chat_stopRecording :: "bool \<Rightarrow> ChatState \<Rightarrow> error + ChatState" where
  "chat_stopRecording shouldSend s =
     (case (case mediaRecorderRef s of
              None \<Rightarrow> Inr s
            | Some r \<Rightarrow>
                if isRecording s then
                  (case (if shouldSend then MediaRecorder_stop r else MediaRecorder_stop r) of
                     Inl e \<Rightarrow> Inl e
                   | Inr r' \<Rightarrow> Inr (s\<lparr>mediaRecorderRef := Some (stopTracks r')\<rparr>))
                else Inr s) of
        Inl e \<Rightarrow> Inl e
      | Inr s1 \<Rightarrow> Inr (clearTimer (s1\<lparr>isRecording := False\<rparr>)))"

text \<open>
  The \<open>onstop\<close> handler of the chat view: the chunks become one blob, which is sent as
  an audio attachment through \<open>handleSend\<close>.  The handler is a closure made inside
  \<open>startRecording\<close>, so the \<open>handleSend\<close> it calls is that of \<open>render\<close>, the state of
  the render whose \<open>startRecording\<close> was called; \<open>chunksRef\<close> is a ref and is read
  from \<open>s\<close>, the state in which the \<open>stop\<close> event is handled.  \<open>objectUrl\<close> is what
  \<open>URL.createObjectURL\<close> returns for the blob.
\<close>

definition chat_onstop ::
  "(string \<Rightarrow> string) \<Rightarrow> string \<Rightarrow> nat \<Rightarrow> error + string option \<Rightarrow> nat
     \<Rightarrow> ChatState \<Rightarrow> ChatState \<Rightarrow> ChatState" where
  "chat_onstop trim objectUrl now1 reply now2 render s =
     (let blob = concat (chunksRef s);
          base64 = encode blob
      in handleSend trim now1 reply now2 None
           (Some \<lparr>att_type = Audio, url = objectUrl, att_data = Some base64,
                  mimeType = Some ''audio/mp3''\<rparr>) render s)"

subsection \<open>LessonView (components/LessonView.tsx)\<close>

text \<open>
  The lesson view is the third component of the file \<open>types.ts\<close> (from line 533);
  \<open>checkAnswers\<close> is at lines 589 to 617.
\<close>

record QuizQuestion =
  question :: string
  options :: "string list"
  correctAnswer :: string
  explanation :: string

record GeneratedLesson =
  lesson_content :: string
  quiz :: "QuizQuestion list"

record LessonResult =
  result_id :: string
  timestamp :: nat
  topic :: string
  level :: string
  result_score :: nat
  totalQuestions :: nat
  lessonData :: GeneratedLesson
  userAnswers :: "nat \<rightharpoonup> string"

datatype Tab = Create | History

text \<open>
  \<open>stored\<close> is the value under the key \<open>lesson_history\<close> of the local storage: the
  list whose JSON text was last written there, if any.
\<close>

record LessonState =
  activeTab :: Tab
  selectedTopic :: string
  selectedLevel :: string
  lesson :: "GeneratedLesson option"
  quizAnswers :: "nat \<rightharpoonup> string"
  showResults :: bool
  isSaved :: bool
  history :: "LessonResult list"
  stored :: "LessonResult list option"

definition handleAnswer :: "nat \<Rightarrow> string \<Rightarrow> LessonState \<Rightarrow> LessonState" where
  "handleAnswer qIndex opt s = s\<lparr>quizAnswers := (quizAnswers s)(qIndex \<mapsto> opt)\<rparr>"

text \<open>
  The score loop: question \<open>idx\<close> counts when the answer stored under \<open>idx\<close> is its
  correct answer.
\<close>

fun countCorrect :: "(nat \<rightharpoonup> string) \<Rightarrow> nat \<Rightarrow> QuizQuestion list \<Rightarrow> nat" where
  "countCorrect answers idx [] = 0"
| "countCorrect answers idx (q # qs) =
     (if answers idx = Some (correctAnswer q) then 1 else 0) + countCorrect answers (Suc idx) qs"

text \<open>
  \<open>checkAnswers\<close>; \<open>now1\<close> and \<open>now2\<close> are the two readings of \<open>Date.now()\<close>.
\<close>

definition checkAnswers :: "nat \<Rightarrow> nat \<Rightarrow> LessonState \<Rightarrow> LessonState" where
  "checkAnswers now1 now2 s =
     (let s1 = s\<lparr>showResults := True\<rparr>
      in case lesson s of
           None \<Rightarrow> s1
         | Some l \<Rightarrow>
             if \<not> isSaved s then
               (let newResult =
                      \<lparr>result_id = decimal now1,
                       timestamp = now2,
                       topic = selectedTopic s,
                       level = selectedLevel s,
                       result_score = countCorrect (quizAnswers s) 0 (quiz l),
                       totalQuestions = length (quiz l),
                       lessonData = l,
                       userAnswers = quizAnswers s\<rparr>;
                    updatedHistory = newResult # history s
                in s1\<lparr>history := updatedHistory,
                      stored := Some updatedHistory,
                      isSaved := True\<rparr>)
             else s1)"

definition loadHistoryItem :: "LessonResult \<Rightarrow> LessonState \<Rightarrow> LessonState" where
  "loadHistoryItem item s =
     s\<lparr>lesson := Some (lessonData item),
       quizAnswers := userAnswers item,
       selectedTopic := topic item,
       selectedLevel := level item,
       showResults := True,
       isSaved := True,
       activeTab := Create\<rparr>"

text \<open>Any number of further calls of \<open>checkAnswers\<close>, one per pair of clock readings.\<close>

fun checkAnswersAgain :: "(nat \<times> nat) list \<Rightarrow> LessonState \<Rightarrow> LessonState" where
  "checkAnswersAgain [] s = s"
| "checkAnswersAgain ((now1, now2) # later) s = checkAnswersAgain later (checkAnswers now1 now2 s)"

section \<open>Sample inputs\<close>

text \<open>
  Concrete remote outcomes, parse results and view states for the examples that
  follow the theorems.  \<open>failingOn m\<close> is an API whose model \<open>m\<close> rejects every
  request and whose other models answer with the text \<open>{}\<close>; \<open>replyWith t\<close> answers
  every request with the text \<open>t\<close>.
\<close>

definition failingOn :: "string \<Rightarrow> Api" where
  "failingOn m request =
     (if model request = m then Inl (RemoteError ''unavailable'')
      else Inr (Response (Some ''{}'') None))"

definition replyWith :: "string \<Rightarrow> Api" where
  "replyWith t request = Inr (Response (Some t) None)"

text \<open>\<open>JSON.parse\<close> on the text \<open>{}\<close>, read as a definition payload.\<close>

definition noTextData :: "string \<Rightarrow> error + TextData" where
  "noTextData t =
     (if t = ''{}''
      then Inr \<lparr>td_word = None, td_definition = None, td_example = None, td_translation = None\<rparr>
      else Inl SyntaxError)"

text \<open>
  The JSON text \<open>{"score":n,"feedback":"f"}\<close> for given digits \<open>n\<close> and text \<open>f\<close>,
  and \<open>JSON.parse\<close> on the three scoring texts of the examples; no other text is
  passed to it there.
\<close>

definition scoreText :: "string \<Rightarrow> string \<Rightarrow> string" where
  "scoreText digits f =
     ''{'' @ [CHR 0x22] @ ''score'' @ [CHR 0x22] @ '':'' @ digits @ '',''
     @ [CHR 0x22] @ ''feedback'' @ [CHR 0x22] @ '':'' @ [CHR 0x22] @ f @ [CHR 0x22] @ ''}''"

definition sampleParse :: "string \<Rightarrow> error + PronunciationResult" where
  "sampleParse t =
     (if t = scoreText ''11'' ''ok'' then Inr \<lparr>score = Some 11, feedback = Some ''ok''\<rparr>
      else if t = scoreText ''7'' ''bien'' then Inr \<lparr>score = Some 7, feedback = Some ''bien''\<rparr>
      else if t = ''{}'' then Inr \<lparr>score = None, feedback = None\<rparr>
      else Inl SyntaxError)"

text \<open>
  What claim C7 asks of a scoring result: a score that is a number from 0 to 10 and a
  feedback that is text.
\<close>

definition inRange :: "PronunciationResult \<Rightarrow> bool" where
  "inRange r =
     ((case score r of None \<Rightarrow> False | Some x \<Rightarrow> 0 \<le> x \<and> x \<le> 10)
      \<and> (case feedback r of None \<Rightarrow> False | Some f \<Rightarrow> True))"

text \<open>
  A chat view as rendered when the record button is pressed, with an empty input, and
  the same view in the middle of the recording, with two chunks gathered and the text
  \<open>abc\<close> typed into the input while the microphone permission was pending.
\<close>

definition idleChat :: ChatState where
  "idleChat =
     \<lparr>isRecording = False, mediaRecorderRef = None,
      chunksRef = [], detached = [], logged = [], alerts = [],
      chat = True, messages = [], input = [], attachment = None, isLoading = False,
      recordingDuration = 0, timerRef = None, intervals = [], sent = []\<rparr>"

definition recordingChat :: ChatState where
  "recordingChat =
     \<lparr>isRecording = True,
      mediaRecorderRef = Some (MediaRecorder_start newMediaRecorder),
      chunksRef = [[0x01, 0x02], [0x03]], detached = [], logged = [], alerts = [],
      chat = True, messages = [], input = ''abc'', attachment = None, isLoading = False,
      recordingDuration = 2, timerRef = Some 7, intervals = [7], sent = []\<rparr>"

text \<open>
  \<open>String.prototype.trim\<close> on texts whose only white space is the ASCII space; the
  examples apply it to the empty text only.
\<close>

definition trimSpaces :: "string \<Rightarrow> string" where
  "trimSpaces t =
     rev (dropWhile (\<lambda>c. c = CHR '' '') (rev (dropWhile (\<lambda>c. c = CHR '' '') t)))"

text \<open>A lesson view with a generated lesson of two questions, both answered, not yet saved.\<close>

definition answeredLesson :: LessonState where
  "answeredLesson =
     \<lparr>activeTab = Create, selectedTopic = ''Travel Basics'', selectedLevel = ''Beginner'',
      lesson = Some \<lparr>lesson_content = ''### Introduction'',
                     quiz = [\<lparr>question = ''Q1'', options = [''a'', ''b''],
                              correctAnswer = ''a'', explanation = ''(parce que)''\<rparr>,
                             \<lparr>question = ''Q2'', options = [''c'', ''d''],
                              correctAnswer = ''d'', explanation = ''(parce que)''\<rparr>]\<rparr>,
      quizAnswers = [0 \<mapsto> ''a'', 1 \<mapsto> ''c''],
      showResults = False, isSaved = False, history = [], stored = None\<rparr>"

section \<open>Properties of the Base64 codec\<close>

lemma index_of_nth:
  "distinct xs \<Longrightarrow> i < length xs \<Longrightarrow> index_of xs (xs ! i) = Some i"
proof (induction xs arbitrary: i)
  case Nil
  then show ?case by simp
next
  case (Cons x xs)
  show ?case
  proof (cases i)
    case 0
    then show ?thesis by simp
  next
    case (Suc j)
    with Cons.prems have "j < length xs" and "distinct xs" and "xs ! j \<noteq> x"
      by auto
    with Cons.IH [of j] Suc show ?thesis by auto
  qed
qed

lemma length_b64_alphabet: "length b64_alphabet = 64"
  by (simp add: b64_alphabet_def)

lemma distinct_b64_alphabet: "distinct b64_alphabet"
  by (simp add: b64_alphabet_def)

lemma b64_pad_not_in_alphabet: "b64_pad \<notin> set b64_alphabet"
  by (simp add: b64_alphabet_def b64_pad_def)

lemma b64_value_char: "n < 64 \<Longrightarrow> b64_value (b64_char n) = Some n"
  unfolding b64_value_def b64_char_def
  using index_of_nth [OF distinct_b64_alphabet, of n]
  by (simp add: length_b64_alphabet)

lemma b64_char_not_pad: "b64_char n \<noteq> b64_pad"
proof -
  have "n mod 64 < length b64_alphabet"
    by (simp add: length_b64_alphabet)
  then have "b64_char n \<in> set b64_alphabet"
    unfolding b64_char_def by (rule nth_mem)
  with b64_pad_not_in_alphabet show ?thesis by auto
qed

lemma unat_byte_less: "unat (a :: byte) < 256"
  using unsigned_less [of a, where ?'a = nat] by simp

lemma sextet_bounds:
  fixes a b c :: byte
  shows "unat a div 4 < 64"
    and "(unat a mod 4) * 16 < 64"
    and "(unat a mod 4) * 16 + unat b div 16 < 64"
    and "(unat b mod 16) * 4 < 64"
    and "(unat b mod 16) * 4 + unat c div 64 < 64"
    and "unat c mod 64 < 64"
proof -
  have a: "unat a < 256" and b: "unat b < 256" and c: "unat c < 256"
    by (rule unat_byte_less)+
  show "unat a div 4 < 64" using a by simp
  have a4: "unat a mod 4 < 4" by simp
  have b16: "unat b mod 16 < 16" by simp
  have bd: "unat b div 16 < 16" using b by simp
  have cd: "unat c div 64 < 4" using c by simp
  show "(unat a mod 4) * 16 < 64" using a4 by simp
  show "(unat a mod 4) * 16 + unat b div 16 < 64" using a4 bd by linarith
  show "(unat b mod 16) * 4 < 64" using b16 by simp
  show "(unat b mod 16) * 4 + unat c div 64 < 64" using b16 cd by linarith
  show "unat c mod 64 < 64" by simp
qed

lemma first_byte_back:
  fixes a b :: byte
  shows "of_nat (unat a div 4 * 4 + ((unat a mod 4) * 16 + unat b div 16) div 16) = a"
proof -
  have "unat b div 16 < 16"
    using unat_byte_less [of b] by simp
  then have "((unat a mod 4) * 16 + unat b div 16) div 16 = unat a mod 4"
    by simp
  then have "unat a div 4 * 4 + ((unat a mod 4) * 16 + unat b div 16) div 16 = unat a"
    by simp
  then show ?thesis by simp
qed

lemma first_byte_back_pad:
  fixes a :: byte
  shows "of_nat (unat a div 4 * 4 + ((unat a mod 4) * 16) div 16) = a"
proof -
  have "unat a div 4 * 4 + ((unat a mod 4) * 16) div 16 = unat a"
    by simp
  then show ?thesis by simp
qed

lemma second_byte_back:
  fixes a b c :: byte
  shows "of_nat ((((unat a mod 4) * 16 + unat b div 16) mod 16) * 16
            + ((unat b mod 16) * 4 + unat c div 64) div 4) = b"
proof -
  have b16: "unat b div 16 < 16"
    using unat_byte_less [of b] by simp
  have c4: "unat c div 64 < 4"
    using unat_byte_less [of c] by simp
  have "((unat a mod 4) * 16 + unat b div 16) mod 16 = unat b div 16"
    using b16 by simp
  moreover have "((unat b mod 16) * 4 + unat c div 64) div 4 = unat b mod 16"
    using c4 by simp
  ultimately have "(((unat a mod 4) * 16 + unat b div 16) mod 16) * 16
            + ((unat b mod 16) * 4 + unat c div 64) div 4 = unat b"
    by simp
  then show ?thesis by simp
qed

lemma second_byte_back_pad:
  fixes a b :: byte
  shows "of_nat ((((unat a mod 4) * 16 + unat b div 16) mod 16) * 16
            + ((unat b mod 16) * 4) div 4) = b"
proof -
  have b16: "unat b div 16 < 16"
    using unat_byte_less [of b] by simp
  have "((unat a mod 4) * 16 + unat b div 16) mod 16 = unat b div 16"
    using b16 by simp
  then have "(((unat a mod 4) * 16 + unat b div 16) mod 16) * 16
            + ((unat b mod 16) * 4) div 4 = unat b"
    by simp
  then show ?thesis by simp
qed

lemma third_byte_back:
  fixes b c :: byte
  shows "of_nat ((((unat b mod 16) * 4 + unat c div 64) mod 4) * 64 + unat c mod 64) = c"
proof -
  have c4: "unat c div 64 < 4"
    using unat_byte_less [of c] by simp
  have "((unat b mod 16) * 4 + unat c div 64) mod 4 = unat c div 64"
    using c4 by simp
  then have "(((unat b mod 16) * 4 + unat c div 64) mod 4) * 64 + unat c mod 64 = unat c"
    by simp
  then show ?thesis by simp
qed

lemma decode_pair_encode:
  fixes a :: byte
  shows "decode_pair (b64_char (unat a div 4)) (b64_char ((unat a mod 4) * 16)) = Some [a]"
  using first_byte_back_pad [of a]
  by (simp add: decode_pair_def b64_value_char sextet_bounds)

lemma decode_triple_encode:
  fixes a b :: byte
  shows "decode_triple (b64_char (unat a div 4))
           (b64_char ((unat a mod 4) * 16 + unat b div 16))
           (b64_char ((unat b mod 16) * 4)) = Some [a, b]"
  using first_byte_back [of a b] second_byte_back_pad [of a b]
  by (simp add: decode_triple_def b64_value_char sextet_bounds)

lemma decode_quad_encode:
  fixes a b c :: byte
  shows "decode_quad (b64_char (unat a div 4))
           (b64_char ((unat a mod 4) * 16 + unat b div 16))
           (b64_char ((unat b mod 16) * 4 + unat c div 64))
           (b64_char (unat c mod 64)) = Some [a, b, c]"
  using first_byte_back [of a b] second_byte_back [of a b c] third_byte_back [of b c]
  by (simp add: decode_quad_def b64_value_char sextet_bounds)

lemma encode_eq_Nil: "encode bs = [] \<longleftrightarrow> bs = []"
  by (induction bs rule: encode.induct) simp_all

text \<open>
  Claim C1.  For every byte sequence, the empty one included, decoding the Base64 text
  that \<open>encode\<close> produces succeeds and gives the byte sequence back:
  \<open>decode (encode b) = b\<close>.
\<close>

theorem base64_round_trip: "decode (encode b) = Inr b"
proof (induction b rule: encode.induct)
  case 1
  show ?case by simp
next
  case (2 a)
  show ?case
    by (simp add: decode_last_def decode_pair_encode)
next
  case (3 a b)
  show ?case
    by (simp add: decode_last_def b64_char_not_pad decode_triple_encode)
next
  case (4 a b c rest)
  show ?case
  proof (cases "rest = []")
    case True
    then show ?thesis
      by (simp add: decode_last_def b64_char_not_pad decode_quad_encode)
  next
    case False
    then have "encode rest \<noteq> []"
      by (simp add: encode_eq_Nil)
    with 4 show ?thesis
      by (simp add: decode_quad_encode)
  qed
qed

theorem base64_round_trip_witness:
  "decode (encode []) = Inr [] \<and> decode (encode [0x4D, 0x61]) = Inr [0x4D, 0x61]"
  using base64_round_trip [of "[]"] base64_round_trip [of "[0x4D, 0x61]"]
  by blast

section \<open>Properties of the PCM frame decoder\<close>








text \<open>
  Claim C6.  \<open>decodeAudioData\<close> fails exactly when the channel count is below 1 or
  the byte sequence is empty, DecodeError is the only error it gives, and on every
  other input it returns a SampleBuffer.
\<close>

theorem decodeAudioData_failure:
  "(decodeAudioData bytes rate numChannels = Inl DecodeError
      \<longleftrightarrow> numChannels < 1 \<or> bytes = [])
   \<and> ((\<exists>buf. decodeAudioData bytes rate numChannels = Inr buf)
      \<longleftrightarrow> 1 \<le> numChannels \<and> bytes \<noteq> [])
   \<and> (\<forall>e. decodeAudioData bytes rate numChannels = Inl e \<longleftrightarrow>
          e = DecodeError \<and> (numChannels < 1 \<or> bytes = []))"
  by (auto simp add: decodeAudioData_def)

theorem decodeAudioData_failure_witness:
  "decodeAudioData [0x01] 24000 0 = Inl DecodeError
   \<and> decodeAudioData [] 24000 2 = Inl DecodeError
   \<and> (\<exists>buf. decodeAudioData [0x01] 24000 1 = Inr buf)"
  using decodeAudioData_failure [of "[0x01]" 24000 0]
    decodeAudioData_failure [of "[]" 24000 2]
    decodeAudioData_failure [of "[0x01]" 24000 1]
  by simp

section \<open>Properties of the remote generation client\<close>

text \<open>
  Claim C3.  \<open>generateVisualVocab\<close> issues the definition request and the image
  request, both before it waits for either, and joins them.  If either call rejects,
  the composed operation rejects, with the reason of one of the rejected calls, and
  returns no card.
\<close>

theorem generateVisualVocab_joined_failure:
  assumes "(\<exists>e. api (definitionRequest word) = Inl e) \<or> (\<exists>e. api (imageRequest word) = Inl e)"
  shows "(\<exists>e. returned (generateVisualVocab JSON_parse imageSettlesFirst api word) = Inl e
            \<and> (api (definitionRequest word) = Inl e \<or> api (imageRequest word) = Inl e))
         \<and> requests (generateVisualVocab JSON_parse imageSettlesFirst api word)
             = [definitionRequest word, imageRequest word]"
  using assms
  by (auto simp add: generateVisualVocab_def promise_all2_def Let_def split: sum.splits)

theorem generateVisualVocab_joined_failure_witness:
  "returned (generateVisualVocab noTextData False (failingOn ''gemini-2.5-flash-image'') ''cat'')
     = Inl (RemoteError ''unavailable'')
   \<and> returned (generateVisualVocab noTextData True (failingOn ''gemini-2.5-flash'') ''cat'')
     = Inl (RemoteError ''unavailable'')
   \<and> requests (generateVisualVocab noTextData False (failingOn ''gemini-2.5-flash-image'') ''cat'')
     = [definitionRequest ''cat'', imageRequest ''cat'']"
proof -
  have img: "failingOn ''gemini-2.5-flash-image'' (imageRequest ''cat'')
               = Inl (RemoteError ''unavailable'')"
    by (simp add: failingOn_def imageRequest_def)
  have def: "failingOn ''gemini-2.5-flash-image'' (definitionRequest ''cat'')
               = Inr (Response (Some ''{}'') None)"
    by (simp add: failingOn_def definitionRequest_def)
  have def2: "failingOn ''gemini-2.5-flash'' (definitionRequest ''cat'')
               = Inl (RemoteError ''unavailable'')"
    by (simp add: failingOn_def definitionRequest_def)
  have img2: "failingOn ''gemini-2.5-flash'' (imageRequest ''cat'')
               = Inr (Response (Some ''{}'') None)"
    by (simp add: failingOn_def imageRequest_def)
  from img have "(\<exists>e. failingOn ''gemini-2.5-flash-image'' (definitionRequest ''cat'') = Inl e)
      \<or> (\<exists>e. failingOn ''gemini-2.5-flash-image'' (imageRequest ''cat'') = Inl e)"
    by blast
  from generateVisualVocab_joined_failure [OF this, of noTextData False] img def
  have first: "returned (generateVisualVocab noTextData False (failingOn ''gemini-2.5-flash-image'') ''cat'')
     = Inl (RemoteError ''unavailable'')
     \<and> requests (generateVisualVocab noTextData False (failingOn ''gemini-2.5-flash-image'') ''cat'')
     = [definitionRequest ''cat'', imageRequest ''cat'']"
    by auto
  from def2 have "(\<exists>e. failingOn ''gemini-2.5-flash'' (definitionRequest ''cat'') = Inl e)
      \<or> (\<exists>e. failingOn ''gemini-2.5-flash'' (imageRequest ''cat'') = Inl e)"
    by blast
  from generateVisualVocab_joined_failure [OF this, of noTextData True] img2 def2
  have "returned (generateVisualVocab noTextData True (failingOn ''gemini-2.5-flash'') ''cat'')
     = Inl (RemoteError ''unavailable'')"
    by auto
  with first show ?thesis by blast
qed

text \<open>
  Claim C7, as stated, asks that every successful \<open>checkPronunciation\<close> call return a
  score from 0 to 10 and a text feedback.  The function returns what \<open>JSON.parse\<close>
  gives and checks nothing: a response with score 11 is returned as it is, and so is
  the empty object, which has neither field.
\<close>

theorem checkPronunciation_score_eleven:
  "returned (checkPronunciation sampleParse (replyWith (scoreText ''11'' ''ok'')) ''cat'' ''AAAA'')
     = Inr \<lparr>score = Some 11, feedback = Some ''ok''\<rparr>
   \<and> \<not> inRange \<lparr>score = Some 11, feedback = Some ''ok''\<rparr>
   \<and> returned (checkPronunciation sampleParse (replyWith ''{}'') ''cat'' ''AAAA'')
     = Inr \<lparr>score = None, feedback = None\<rparr>
   \<and> \<not> inRange \<lparr>score = None, feedback = None\<rparr>"
  by (simp add: checkPronunciation_def sampleParse_def replyWith_def scoreText_def inRange_def)

text \<open>
  Claim C7, amended.  A \<open>checkPronunciation\<close> call succeeds with the value \<open>r\<close>
  exactly when the remote call fulfils with a non-empty response text and
  \<open>JSON.parse\<close> of that text gives \<open>r\<close>: the returned value is the parsed response,
  unchecked, so its score lies between 0 and 10 and its feedback is text whenever the
  response of the remote service has them so.
\<close>

theorem checkPronunciation_returns_parse:
  "returned (checkPronunciation JSON_parse api targetWord audioBase64) = Inr r
     \<longleftrightarrow> (\<exists>response t. api (pronunciationRequest targetWord audioBase64) = Inr response
            \<and> response_text response = Some t \<and> t \<noteq> [] \<and> JSON_parse t = Inr r)"
  by (auto simp add: checkPronunciation_def split: sum.splits option.splits if_splits)

theorem checkPronunciation_returns_parse_witness:
  "returned (checkPronunciation sampleParse (replyWith (scoreText ''7'' ''bien'')) ''cat'' ''AAAA'')
     = Inr \<lparr>score = Some 7, feedback = Some ''bien''\<rparr>
   \<and> inRange \<lparr>score = Some 7, feedback = Some ''bien''\<rparr>"
proof -
  have "\<exists>response t.
          replyWith (scoreText ''7'' ''bien'') (pronunciationRequest ''cat'' ''AAAA'') = Inr response
            \<and> response_text response = Some t \<and> t \<noteq> []
            \<and> sampleParse t = Inr \<lparr>score = Some 7, feedback = Some ''bien''\<rparr>"
    by (simp add: replyWith_def sampleParse_def scoreText_def)
  with checkPronunciation_returns_parse
         [of sampleParse "replyWith (scoreText ''7'' ''bien'')" "''cat''" "''AAAA''"
            "\<lparr>score = Some 7, feedback = Some ''bien''\<rparr>"]
  have "returned (checkPronunciation sampleParse (replyWith (scoreText ''7'' ''bien'')) ''cat'' ''AAAA'')
     = Inr \<lparr>score = Some 7, feedback = Some ''bien''\<rparr>"
    by blast
  then show ?thesis by (simp add: inRange_def)
qed

text \<open>
  Claim C8.  When \<open>generateSpeech\<close> fails, because the remote call rejects or because
  the response carries no audio data, it returns \<open>null\<close> to its caller, raises
  nothing, and has issued its one request once: there is no retry.
\<close>

theorem generateSpeech_failure:
  assumes "(\<exists>e. api (speechRequest txt) = Inl e)
           \<or> (\<exists>response. api (speechRequest txt) = Inr response \<and> \<not> truthy (speechData response))"
  shows "returned (generateSpeech api txt) = Inr None
         \<and> requests (generateSpeech api txt) = [speechRequest txt]"
  using assms
  by (auto simp add: generateSpeech_def split: sum.splits)

theorem generateSpeech_failure_witness:
  "returned (generateSpeech (failingOn ''gemini-2.5-flash-preview-tts'') ''hello'') = Inr None
   \<and> requests (generateSpeech (failingOn ''gemini-2.5-flash-preview-tts'') ''hello'')
       = [speechRequest ''hello'']"
proof -
  have "failingOn ''gemini-2.5-flash-preview-tts'' (speechRequest ''hello'')
          = Inl (RemoteError ''unavailable'')"
    by (simp add: failingOn_def speechRequest_def)
  then have "(\<exists>e. failingOn ''gemini-2.5-flash-preview-tts'' (speechRequest ''hello'') = Inl e)
           \<or> (\<exists>response. failingOn ''gemini-2.5-flash-preview-tts'' (speechRequest ''hello'') = Inr response
                 \<and> \<not> truthy (speechData response))"
    by blast
  from generateSpeech_failure [of "failingOn ''gemini-2.5-flash-preview-tts''" "''hello''", OF this]
  show ?thesis .
qed

section \<open>Properties of the recording capturer\<close>

text \<open>
  Claim C4.  \<open>stopRecording\<close> of the visual dictionary view, called while the view is
  not recording, raises nothing and returns the state it was given: no recorder is
  stopped, no \<open>stop\<close> event is queued, no blob is built, and the view stays idle.
  This covers the first render, before any \<open>startRecording\<close>.
\<close>

theorem stopRecording_idle_noop:
  assumes "\<not> isRecording s"
  shows "stopRecording s = Inr s"
  using assms by (simp add: stopRecording_def split: option.splits)

theorem stopRecording_idle_noop_witness:
  "stopRecording initialVisualDict = Inr initialVisualDict
   \<and> audioBlobs initialVisualDict = [] \<and> queuedStopEvents initialVisualDict = 0"
proof -
  have "\<not> isRecording initialVisualDict"
    by (simp add: initialVisualDict_def)
  from stopRecording_idle_noop [OF this] show ?thesis
    by (simp add: initialVisualDict_def queuedStopEvents_def allRecorders_def)
qed

text \<open>
  Claim C5, as stated, asks that \<open>startRecording\<close> be rejected while a recording is
  running.  Called twice in a row with the microphone granted, it leaves two recorders
  recording.
\<close>

theorem startRecording_twice:
  "isRecording (startRecording (Inr ()) initialVisualDict)
   \<and> activeSessions (startRecording (Inr ()) initialVisualDict) = 1
   \<and> activeSessions (startRecording (Inr ()) (startRecording (Inr ()) initialVisualDict)) = 2"
  by (simp add: startRecording_def initialVisualDict_def activeSessions_def allRecorders_def
      MediaRecorder_start_def newMediaRecorder_def)

text \<open>
  Claim C5, amended.  \<open>startRecording\<close> has no guard and the capturer no StateError:
  called while the view is recording, with the microphone granted, it is not
  rejected; it points the ref to a new recorder that records, empties the chunk
  accumulator, reports nothing, and leaves every earlier recorder as it was, so that
  one more session is active.
\<close>

theorem startRecording_unguarded:
  assumes "isRecording s"
  shows "isRecording (startRecording (Inr stream) s)
         \<and> mediaRecorderRef (startRecording (Inr stream) s)
             = Some (MediaRecorder_start newMediaRecorder)
         \<and> chunksRef (startRecording (Inr stream) s) = []
         \<and> detached (startRecording (Inr stream) s) = allRecorders s
         \<and> activeSessions (startRecording (Inr stream) s) = Suc (activeSessions s)
         \<and> logged (startRecording (Inr stream) s) = logged s
         \<and> alerts (startRecording (Inr stream) s) = alerts s"
  using assms
  by (simp add: startRecording_def activeSessions_def allRecorders_def
      MediaRecorder_start_def newMediaRecorder_def split: option.splits)

theorem startRecording_unguarded_witness:
  "isRecording (startRecording (Inr ()) (startRecording (Inr ()) initialVisualDict))
   \<and> detached (startRecording (Inr ()) (startRecording (Inr ()) initialVisualDict))
       = [MediaRecorder_start newMediaRecorder]
   \<and> activeSessions (startRecording (Inr ()) (startRecording (Inr ()) initialVisualDict))
       = Suc (activeSessions (startRecording (Inr ()) initialVisualDict))"
proof -
  have rec: "isRecording (startRecording (Inr ()) initialVisualDict)"
    by (simp add: startRecording_def initialVisualDict_def)
  have all: "allRecorders (startRecording (Inr ()) initialVisualDict)
               = [MediaRecorder_start newMediaRecorder]"
    by (simp add: startRecording_def initialVisualDict_def allRecorders_def)
  from startRecording_unguarded [OF rec, of "()"] all
  show ?thesis by simp
qed

text \<open>
  Claim C9.  In the chat view, \<open>stopRecording(true)\<close> and \<open>stopRecording(false)\<close>
  give the same result on every state.  When a recording is running, either call
  stops the recorder and the track of its stream and queues one \<open>stop\<close> event.  The
  \<open>onstop\<close> handler that this event runs sends the recorded audio: when the chat
  session of its render exists, it appends a user message that carries the audio
  attachment, with the input text of that render, and passes to \<open>chat.sendMessage\<close>
  the text part, if the trimmed text is not empty, and the audio as inline data, if
  the recording is not empty.  So "cancel" sends the audio as "send" does.
\<close>

theorem chat_stopRecording_ignores_shouldSend:
  "chat_stopRecording True s = chat_stopRecording False s
   \<and> (isRecording s \<and> mediaRecorderRef s = Some r \<and> state r = Recording \<longrightarrow>
        (\<exists>s'. chat_stopRecording shouldSend s = Inr s'
           \<and> mediaRecorderRef s'
               = Some (r\<lparr>state := Inactive, stopEvents := stopEvents r + 1, trackLive := False\<rparr>)
           \<and> queuedStopEvents s' = Suc (queuedStopEvents s)
           \<and> \<not> isRecording s'
           \<and> chunksRef s' = chunksRef s \<and> chat s' = chat s \<and> input s' = input s
           \<and> messages s' = messages s))
   \<and> (chat render \<longrightarrow>
        (\<exists>answer. messages (chat_onstop trim objectUrl now1 reply now2 render s)
           = messages s
             @ [userMessage now1 (input render)
                  (Some \<lparr>att_type = Audio, url = objectUrl,
                         att_data = Some (encode (concat (chunksRef s))),
                         mimeType = Some ''audio/mp3''\<rparr>),
                answer])
        \<and> sent (chat_onstop trim objectUrl now1 reply now2 render s)
           = sent s
             @ [(if trim (input render) = [] then [] else [TextPart (input render)])
                @ (if concat (chunksRef s) = [] then []
                   else [InlineDataPart ''audio/mp3'' (encode (concat (chunksRef s)))])])"
proof -
  have same: "chat_stopRecording True s = chat_stopRecording False s"
    unfolding chat_stopRecording_def if_True if_False ..
  have stop: "isRecording s \<and> mediaRecorderRef s = Some r \<and> state r = Recording \<longrightarrow>
        (\<exists>s'. chat_stopRecording shouldSend s = Inr s'
           \<and> mediaRecorderRef s'
               = Some (r\<lparr>state := Inactive, stopEvents := stopEvents r + 1, trackLive := False\<rparr>)
           \<and> queuedStopEvents s' = Suc (queuedStopEvents s)
           \<and> \<not> isRecording s'
           \<and> chunksRef s' = chunksRef s \<and> chat s' = chat s \<and> input s' = input s
           \<and> messages s' = messages s)"
    by (simp add: chat_stopRecording_def MediaRecorder_stop_def stopTracks_def clearTimer_def
        queuedStopEvents_def allRecorders_def split: option.splits)
  have appended: "chat render \<longrightarrow>
        (\<exists>answer. messages (chat_onstop trim objectUrl now1 reply now2 render s)
           = messages s
             @ [userMessage now1 (input render)
                  (Some \<lparr>att_type = Audio, url = objectUrl,
                         att_data = Some (encode (concat (chunksRef s))),
                         mimeType = Some ''audio/mp3''\<rparr>),
                answer])"
    by (cases reply) (simp_all add: chat_onstop_def handleSend_def Let_def)
  have passed: "chat render \<longrightarrow>
        sent (chat_onstop trim objectUrl now1 reply now2 render s)
           = sent s
             @ [(if trim (input render) = [] then [] else [TextPart (input render)])
                @ (if concat (chunksRef s) = [] then []
                   else [InlineDataPart ''audio/mp3'' (encode (concat (chunksRef s)))])]"
    by (cases reply)
      (simp_all add: chat_onstop_def handleSend_def messageParts_def or_else_def
        encode_eq_Nil Let_def)
  from same stop appended passed show ?thesis by blast
qed

theorem chat_stopRecording_ignores_shouldSend_witness:
  "chat_stopRecording True recordingChat = chat_stopRecording False recordingChat
   \<and> (\<exists>s'. chat_stopRecording False recordingChat = Inr s'
         \<and> queuedStopEvents s' = 1 \<and> \<not> isRecording s')
   \<and> (\<exists>answer.
         messages (chat_onstop trimSpaces ''blob:1'' 1000 (Inr (Some ''Hi'')) 2000
                     idleChat recordingChat)
         = [userMessage 1000 []
              (Some \<lparr>att_type = Audio, url = ''blob:1'',
                     att_data = Some (encode [0x01, 0x02, 0x03]),
                     mimeType = Some ''audio/mp3''\<rparr>),
            answer])
   \<and> sent (chat_onstop trimSpaces ''blob:1'' 1000 (Inr (Some ''Hi'')) 2000
              idleChat recordingChat)
       = [[InlineDataPart ''audio/mp3'' (encode [0x01, 0x02, 0x03])]]"
proof -
  have pre: "isRecording recordingChat
      \<and> mediaRecorderRef recordingChat = Some (MediaRecorder_start newMediaRecorder)
      \<and> state (MediaRecorder_start newMediaRecorder) = Recording"
    by (simp add: recordingChat_def MediaRecorder_start_def)
  have c: "chat idleChat"
    by (simp add: idleChat_def)
  have q: "queuedStopEvents recordingChat = 0"
    by (simp add: recordingChat_def queuedStopEvents_def allRecorders_def
        MediaRecorder_start_def newMediaRecorder_def)
  have m: "messages recordingChat = []" "sent recordingChat = []"
    "concat (chunksRef recordingChat) = [0x01, 0x02, 0x03]"
    by (simp_all add: recordingChat_def)
  have i: "input idleChat = []" "trimSpaces [] = []"
    by (simp_all add: idleChat_def trimSpaces_def)
  from chat_stopRecording_ignores_shouldSend
         [of recordingChat "MediaRecorder_start newMediaRecorder" False idleChat trimSpaces
            "''blob:1''" 1000 "Inr (Some ''Hi'')" 2000]
    pre c q m i
  show ?thesis by auto
qed

section \<open>Properties of the lesson history\<close>

lemma checkAnswers_saved:
  "isSaved s \<Longrightarrow> checkAnswers now1 now2 s = s\<lparr>showResults := True\<rparr>"
  by (simp add: checkAnswers_def Let_def split: option.splits)

lemma checkAnswersAgain_saved:
  "isSaved s \<Longrightarrow>
     history (checkAnswersAgain calls s) = history s
     \<and> stored (checkAnswersAgain calls s) = stored s
     \<and> isSaved (checkAnswersAgain calls s)"
proof (induction calls arbitrary: s)
  case Nil
  then show ?case by simp
next
  case (Cons c calls)
  obtain now1 now2 where c: "c = (now1, now2)"
    by (cases c)
  from Cons.prems have "isSaved (s\<lparr>showResults := True\<rparr>)"
    by simp
  from Cons.IH [OF this] Cons.prems c show ?case
    by (simp add: checkAnswers_saved)
qed

lemma checkAnswers_first:
  "lesson s = Some l \<Longrightarrow> \<not> isSaved s \<Longrightarrow>
     isSaved (checkAnswers now1 now2 s)
     \<and> tl (history (checkAnswers now1 now2 s)) = history s
     \<and> length (history (checkAnswers now1 now2 s)) = Suc (length (history s))
     \<and> stored (checkAnswers now1 now2 s) = Some (history (checkAnswers now1 now2 s))"
  by (simp add: checkAnswers_def Let_def)

text \<open>
  Claim C10.  Once a result is saved (\<open>isSaved\<close> is set, as the first recording call
  of \<open>checkAnswers\<close> sets it), a further call of \<open>checkAnswers\<close>, and any number of
  further calls, appends nothing: the history and the stored history stay as they
  are, and \<open>isSaved\<close> stays set.
\<close>

theorem checkAnswers_saves_once:
  assumes "isSaved s"
  shows "history (checkAnswers now1 now2 s) = history s
         \<and> stored (checkAnswers now1 now2 s) = stored s
         \<and> isSaved (checkAnswers now1 now2 s)
         \<and> history (checkAnswersAgain calls s) = history s
         \<and> stored (checkAnswersAgain calls s) = stored s
         \<and> isSaved (checkAnswersAgain calls s)"
  using assms checkAnswersAgain_saved [of s calls]
  by (simp add: checkAnswers_saved)

theorem checkAnswers_saves_once_witness:
  "isSaved (checkAnswers 1000 1001 answeredLesson)
   \<and> length (history (checkAnswers 1000 1001 answeredLesson)) = 1
   \<and> history (checkAnswers 2000 2001 (checkAnswers 1000 1001 answeredLesson))
       = history (checkAnswers 1000 1001 answeredLesson)
   \<and> history (checkAnswersAgain [(2000, 2001), (3000, 3001)]
                 (checkAnswers 1000 1001 answeredLesson))
       = history (checkAnswers 1000 1001 answeredLesson)
   \<and> stored (checkAnswersAgain [(2000, 2001), (3000, 3001)]
                 (checkAnswers 1000 1001 answeredLesson))
       = stored (checkAnswers 1000 1001 answeredLesson)"
proof -
  have saved: "isSaved (checkAnswers 1000 1001 answeredLesson)"
    by (simp add: checkAnswers_def answeredLesson_def Let_def)
  have one: "length (history (checkAnswers 1000 1001 answeredLesson)) = 1"
    by (simp add: checkAnswers_def answeredLesson_def Let_def)
  from checkAnswers_saves_once [OF saved, of 2000 2001 "[(2000, 2001), (3000, 3001)]"] saved one
  show ?thesis by simp
qed

end
